theory Spec2Isabelle
  imports Complex_Main "HOL-Library.Word" "HOL-Library.Multiset"
begin

section \<open>Data model (index.go, errors.go, constants.go)\<close>

text \<open>
  Go strings and byte slices are byte sequences; both are modelled as \<open>string\<close>.
  A slice is a list; the code inspects slices only through \<open>len\<close>, so a nil slice
  and an empty one are both \<open>[]\<close>. A value of type \<open>map[string]interface{}\<close> is
  \<open>None\<close> when nil and \<open>Some m\<close> otherwise. The type variables \<open>'f\<close>, \<open>'d\<close> and
  \<open>'v\<close> stand for float32, float64 and the dynamically typed values stored in metadata
  and filter mappings. Errors of the standard library and of the msgpack package are
  carried as their messages.
\<close>

type_synonym bytes = string
type_synonym lib_error = string
type_synonym 'v gomap = "(string \<rightharpoonup> 'v) option"

text \<open>constants.go\<close>

definition MaxVectorsPerBatch :: int where
  "MaxVectorsPerBatch = 1000"

definition MaxTopKAllowed :: int where
  "MaxTopKAllowed = 512"

definition MaxEfSearchAllowed :: int where
  "MaxEfSearchAllowed = 1024"

definition Checksum :: int where
  "Checksum = - 1"

definition Cosine :: string where
  "Cosine = ''cosine''"

definition StatusOK :: int where
  "StatusOK = 200"

text \<open>
  The float32 operations the code uses, as the platform provides them: the zero value of
  a float32 variable, the constant 1.0, \<open>+\<close>, \<open>-\<close>, \<open>*\<close>, \<open>/\<close>, the comparison \<open>==\<close>,
  and \<open>float32(math.Sqrt(float64(x)))\<close>.
\<close>

record 'f float_ops =
  f_zero :: 'f
  f_one :: 'f
  f_add :: "'f \<Rightarrow> 'f \<Rightarrow> 'f"
  f_sub :: "'f \<Rightarrow> 'f \<Rightarrow> 'f"
  f_mul :: "'f \<Rightarrow> 'f \<Rightarrow> 'f"
  f_div :: "'f \<Rightarrow> 'f \<Rightarrow> 'f"
  f_eq :: "'f \<Rightarrow> 'f \<Rightarrow> bool"
  f_sqrt :: "'f \<Rightarrow> 'f"

record Index =
  Name :: string
  Token :: string
  URL :: string
  Version :: int
  idx_Checksum :: int
  LibToken :: string
  Count :: int
  SpaceType :: string
  Dimension :: int
  SparseDim :: int
  Precision :: string
  idx_M :: int

record ('f, 'v) VectorItem =
  ID :: string
  Vector :: "'f list"
  SparseIndices :: "int list"
  SparseValues :: "'f list"
  Meta :: "'v gomap"
  Filter :: "'v gomap"

record ('f, 'v) QueryResult =
  res_ID :: string
  res_Similarity :: 'f
  res_Distance :: 'f
  res_Meta :: "'v gomap"
  res_Filter :: "'v gomap"
  res_Norm :: 'f
  res_Vector :: "'f list option"

record 'f QueryRequest =
  req_Vector :: "'f list"
  req_SparseIndices :: "int list"
  req_SparseValues :: "'f list"
  req_TopK :: int
  req_Ef :: int
  req_IncludeVectors :: bool
  req_Filter :: string

text \<open>
  Every error the code builds, with the arguments of its message. \<open>LibError\<close> is an
  error of a library returned as it is; \<open>RuntimePanic\<close> is a Go run-time panic (a failed
  type assertion, an integer division by zero).
\<close>

datatype error =
    RequestCreateFailed lib_error
  | RequestExecuteFailed lib_error
  | DimensionMismatch int int
  | BatchTooLarge int
  | EmptyID nat
  | SparseTogether string
  | SparseSameLength string
  | CompressMetadataFailed error
  | SerializeFilterFailed lib_error
  | SerializeBatchFailed lib_error
  | UpsertFailed error
  | TopKRange int
  | EfRange int
  | NoQueryInput
  | QuerySparseTogether
  | QuerySparseSameLength
  | MarshalRequestFailed lib_error
  | ReadBodyFailed lib_error
  | UnmarshalResponseFailed lib_error
  | InvalidResultFormat nat
  | ReadErrorResponseFailed lib_error
  | APIError int string
  | AuthenticationError string
  | SubscriptionError string
  | ForbiddenError string
  | NotFoundError string
  | ConflictError string
  | ServerError string
  | LibError lib_error
  | RuntimePanic

text \<open>
  A value decoded from msgpack into \<open>interface{}\<close>: nil, a boolean, a string, a byte
  slice, a number of one of the Go numeric types, an array, or a map.
\<close>

datatype ('f, 'd) wire =
    WNil
  | WBool bool
  | WString string
  | WBytes bytes
  | WFloat32 'f
  | WFloat64 'd
  | WInt "64 word"
  | WInt8 "8 word"
  | WInt16 "16 word"
  | WInt32 "32 word"
  | WInt64 "64 word"
  | WUint8 "8 word"
  | WUint16 "16 word"
  | WUint32 "32 word"
  | WUint64 "64 word"
  | WArray "('f, 'd) wire list"
  | WMap "(('f, 'd) wire \<times> ('f, 'd) wire) list"

text \<open>The positional tuple \<open>vectorObj\<close> that \<open>upsertSequential\<close> builds for a record.\<close>

record 'f VectorTuple =
  t_id :: string
  t_meta :: bytes
  t_filter :: string
  t_norm :: 'f
  t_vector :: "'f list"
  t_sparse :: "(int list \<times> 'f list) option"

record http_request =
  h_method :: string
  h_url :: string
  h_authorization :: string
  h_content_type :: string
  h_body :: "bytes option"

text \<open>A response: its status code, and what reading its body to the end gives.\<close>

record http_response =
  StatusCode :: int
  Body :: "lib_error + bytes"

text \<open>
  What the code calls outside this repository: the float32 operations, the run time
  (\<open>runtime.NumCPU\<close>), the numeric conversions \<open>float32(v)\<close>, \<open>fmt.Sprintf\<close>,
  \<open>encoding/json\<close>, \<open>compress/zlib\<close>, the msgpack package and \<open>net/http\<close>.
\<close>

record ('f, 'd, 'v) env =
  fops :: "'f float_ops"
  NumCPU :: nat
  f32_of_f64 :: "'d \<Rightarrow> 'f"
  f32_of_int :: "int \<Rightarrow> 'f"
  Sprint_v :: "('f, 'd) wire \<Rightarrow> string"
  Sprintf_s :: "string \<Rightarrow> string \<Rightarrow> string"
  v_string :: "'v \<Rightarrow> string option"
  json_Marshal_map :: "'v gomap \<Rightarrow> lib_error + bytes"
  json_Marshal_filters :: "(string \<rightharpoonup> 'v) \<Rightarrow> lib_error + bytes"
  json_Marshal_request :: "'f QueryRequest \<Rightarrow> lib_error + bytes"
  json_Unmarshal_map :: "bytes \<Rightarrow> lib_error + 'v gomap"
  json_Decode_map :: "bytes \<Rightarrow> lib_error + 'v gomap"
  zlib_compress :: "bytes \<Rightarrow> lib_error + bytes"
  zlib_decompress :: "bytes \<Rightarrow> lib_error + bytes"
  msgpack_Marshal :: "'f VectorTuple list \<Rightarrow> lib_error + bytes"
  msgpack_Unmarshal :: "bytes \<Rightarrow> lib_error + ('f, 'd) wire list list"
  http_NewRequest :: "string \<Rightarrow> string \<Rightarrow> lib_error option"
  http_Do :: "http_request \<Rightarrow> lib_error + http_response"

text \<open>
  The timing a concurrent run depends on. \<open>dispatch_stop = Some k\<close>: the dispatching
  goroutine's \<open>select\<close> takes \<open>ctx.Done()\<close> when it is about to send its item number
  \<open>k\<close> (from 0), so exactly the first \<open>k\<close> items are sent; \<open>None\<close>: every item is
  sent. \<open>completion\<close>: the order in which the workers' outcomes reach the result
  channel, as positions in the sequence of dispatched items.
\<close>

record schedule =
  dispatch_stop :: "nat option"
  completion :: "nat list"

section \<open>compression.go\<close>

definition map_len_zero :: "'v gomap \<Rightarrow> bool" where
  "map_len_zero data = (case data of None \<Rightarrow> True | Some m \<Rightarrow> m = Map.empty)"

definition JsonZip :: "('f, 'd, 'v) env \<Rightarrow> 'v gomap \<Rightarrow> error + bytes" where
  "JsonZip e data =
     (if map_len_zero data then Inr []
      else case json_Marshal_map e data of
             Inl err \<Rightarrow> Inl (LibError err)
           | Inr jsonData \<Rightarrow>
               (case zlib_compress e jsonData of
                  Inl err \<Rightarrow> Inl (LibError err)
                | Inr b \<Rightarrow> Inr b))"

definition JsonUnzip :: "('f, 'd, 'v) env \<Rightarrow> bytes \<Rightarrow> error + 'v gomap" where
  "JsonUnzip e data =
     (if length data = 0 then Inr (Some Map.empty)
      else case zlib_decompress e data of
             Inl err \<Rightarrow> Inl (LibError err)
           | Inr decompressed \<Rightarrow>
               (case json_Unmarshal_map e decompressed of
                  Inl err \<Rightarrow> Inl (LibError err)
                | Inr result \<Rightarrow> Inr result))"

section \<open>errors.go\<close>

text \<open>The message \<open>checkError\<close> takes from the body of a response that is not 200.\<close>

definition error_message :: "('f, 'd, 'v) env \<Rightarrow> bytes \<Rightarrow> string" where
  "error_message e bodyBytes =
     (case json_Unmarshal_map e bodyBytes of
        Inr errorResp \<Rightarrow>
          (case errorResp of
             None \<Rightarrow> bodyBytes
           | Some m \<Rightarrow>
               (case m ''error'' of
                  None \<Rightarrow> bodyBytes
                | Some val \<Rightarrow> (case v_string e val of Some s \<Rightarrow> s | None \<Rightarrow> bodyBytes)))
      | Inl jsonErr \<Rightarrow> (if bodyBytes = [] then ''Unknown error'' else bodyBytes))"

definition checkError :: "('f, 'd, 'v) env \<Rightarrow> http_response \<Rightarrow> error option" where
  "checkError e resp =
     (if StatusCode resp = StatusOK then None
      else case Body resp of
             Inl err \<Rightarrow> Some (ReadErrorResponseFailed err)
           | Inr bodyBytes \<Rightarrow>
               (let msg = error_message e bodyBytes; c = StatusCode resp in
                if c = 400 then Some (APIError 400 msg)
                else if c = 401 then Some (AuthenticationError msg)
                else if c = 402 then Some (SubscriptionError msg)
                else if c = 403 then Some (ForbiddenError msg)
                else if c = 404 then Some (NotFoundError msg)
                else if c = 409 then Some (ConflictError msg)
                else if c = 500 \<or> c = 502 \<or> c = 503 \<or> c = 504
                  then Some (ServerError ''Server is busy. Please try again in sometime'')
                else Some (APIError c msg)))"

section \<open>index.go: requests\<close>

text \<open>\<open>strings.HasSuffix\<close> and \<open>strings.Contains\<close>.\<close>

definition HasSuffix :: "string \<Rightarrow> string \<Rightarrow> bool" where
  "HasSuffix s suffix =
     (length suffix \<le> length s \<and> drop (length s - length suffix) s = suffix)"

fun Contains :: "string \<Rightarrow> string \<Rightarrow> bool" where
  "Contains [] substr = (substr = [])"
| "Contains (c # s) substr = (take (length substr) (c # s) = substr \<or> Contains s substr)"

definition buildURL :: "('f, 'd, 'v) env \<Rightarrow> Index \<Rightarrow> string \<Rightarrow> string" where
  "buildURL e idx path =
     (let builder = URL idx @ (if \<not> HasSuffix (URL idx) ''/'' then ''/'' else '''') in
      if Contains path ''%s'' then Sprintf_s e (builder @ path) (Name idx)
      else builder @ path)"

text \<open>
  \<open>executeRequestWithContext\<close>. The first component of the result is the list of
  requests handed to \<open>client.Do\<close>: the network calls made.
\<close>

definition executeRequestWithContext ::
  "('f, 'd, 'v) env \<Rightarrow> Index \<Rightarrow> string \<Rightarrow> string \<Rightarrow> bytes option \<Rightarrow> string
     \<Rightarrow> http_request list \<times> (error + http_response)" where
  "executeRequestWithContext e idx method path body contentType =
     (case http_NewRequest e method (buildURL e idx path) of
        Some err \<Rightarrow> ([], Inl (RequestCreateFailed err))
      | None \<Rightarrow>
          (let req = \<lparr>h_method = method, h_url = buildURL e idx path,
                      h_authorization = Token idx, h_content_type = contentType,
                      h_body = body\<rparr> in
           case http_Do e req of
             Inl err \<Rightarrow> ([req], Inl (RequestExecuteFailed err))
           | Inr resp \<Rightarrow> ([req], Inr resp)))"

section \<open>index.go: normalizeVector\<close>

text \<open>The loop \<open>for _, v := range vector { sum += v * v }\<close>, from the running value of \<open>sum\<close>.\<close>

fun sum_loop :: "'f float_ops \<Rightarrow> 'f \<Rightarrow> 'f list \<Rightarrow> 'f" where
  "sum_loop ops acc [] = acc"
| "sum_loop ops acc (v # vector) = sum_loop ops (f_add ops acc (f_mul ops v v)) vector"

text \<open>The loop \<open>for i := range normalizedVector { normalizedVector[i] /= norm }\<close>, from \<open>i\<close>.\<close>

function div_loop :: "'f float_ops \<Rightarrow> 'f \<Rightarrow> nat \<Rightarrow> 'f list \<Rightarrow> 'f list" where
  "div_loop ops nrm i normalizedVector =
     (if i < length normalizedVector
      then div_loop ops nrm (i + 1)
             (normalizedVector[i := f_div ops (normalizedVector ! i) nrm])
      else normalizedVector)"
  by pat_completeness auto
termination
  by (relation "measure (\<lambda>(ops, nrm, i, xs). length xs - i)") auto

definition normalizeVector ::
  "'f float_ops \<Rightarrow> Index \<Rightarrow> 'f list \<Rightarrow> error + ('f list \<times> 'f)" where
  "normalizeVector ops idx vector =
     (if int (length vector) \<noteq> Dimension idx
      then Inl (DimensionMismatch (Dimension idx) (int (length vector)))
      else if SpaceType idx \<noteq> ''cosine'' then Inr (vector, f_one ops)
      else let acc = sum_loop ops (f_zero ops) vector;
               nrm = f_sqrt ops acc in
           if f_eq ops nrm (f_zero ops) then Inr (vector, f_one ops)
           else Inr (div_loop ops nrm 0 vector, nrm))"

section \<open>index.go: Upsert\<close>

text \<open>
  \<open>strings.TrimSpace(s) == ""\<close>. \<open>TrimSpace\<close> removes the leading and trailing
  white-space runes of the UTF-8 string \<open>s\<close>, so the result is empty exactly when
  \<open>s\<close> is a sequence of white-space runes. \<open>space_width\<close> is the number of bytes of
  a white-space rune at the head of a byte sequence (0 when there is none): the ASCII
  characters tab, line feed, vertical tab, form feed, carriage return and space, and the
  encodings of U+0085, U+00A0, U+1680, U+2000 to U+200A, U+2028, U+2029, U+202F, U+205F
  and U+3000.
\<close>

fun space_width :: "nat list \<Rightarrow> nat" where
  "space_width [] = 0"
| "space_width (c # cs) =
     (if c < 128 then (if c = 9 \<or> c = 10 \<or> c = 11 \<or> c = 12 \<or> c = 13 \<or> c = 32 then 1 else 0)
      else if c = 194 then
        (case cs of b # _ \<Rightarrow> if b = 133 \<or> b = 160 then 2 else 0 | [] \<Rightarrow> 0)
      else if c = 225 then (if take 2 cs = [154, 128] then 3 else 0)
      else if c = 226 then
        (case cs of
           b1 # b2 # _ \<Rightarrow>
             if b1 = 128 \<and> (128 \<le> b2 \<and> b2 \<le> 138 \<or> b2 = 168 \<or> b2 = 169 \<or> b2 = 175)
                \<or> b1 = 129 \<and> b2 = 159
             then 3 else 0
         | _ \<Rightarrow> 0)
      else if c = 227 then (if take 2 cs = [128, 128] then 3 else 0)
      else 0)"

function all_space :: "nat list \<Rightarrow> bool" where
  "all_space s =
     (if s = [] then True
      else if space_width s = 0 then False
      else all_space (drop (space_width s) s))"
  by pat_completeness auto
termination
  by (relation "measure length") auto

definition TrimSpace_empty :: "string \<Rightarrow> bool" where
  "TrimSpace_empty s = all_space (map of_char s)"

text \<open>The validation loop of \<open>UpsertWithContext\<close>, from item index \<open>i\<close>.\<close>

fun validate_items :: "nat \<Rightarrow> ('f, 'v) VectorItem list \<Rightarrow> error option" where
  "validate_items i [] = None"
| "validate_items i (item # rest) =
     (if TrimSpace_empty (ID item) then Some (EmptyID i)
      else let hasIndices = (length (SparseIndices item) > 0);
               hasValues = (length (SparseValues item) > 0) in
           if hasIndices \<noteq> hasValues then Some (SparseTogether (ID item))
           else if hasIndices \<and> length (SparseIndices item) \<noteq> length (SparseValues item)
             then Some (SparseSameLength (ID item))
           else validate_items (i + 1) rest)"

text \<open>The loop of \<open>upsertSequential\<close> that builds \<open>vectorBatch\<close>.\<close>

fun build_batch ::
  "('f, 'd, 'v) env \<Rightarrow> Index \<Rightarrow> ('f, 'v) VectorItem list \<Rightarrow> 'f VectorTuple list
     \<Rightarrow> error + 'f VectorTuple list" where
  "build_batch e idx [] vectorBatch = Inr vectorBatch"
| "build_batch e idx (item # rest) vectorBatch =
     (case normalizeVector (fops e) idx (Vector item) of
        Inl err \<Rightarrow> Inl err
      | Inr (normalizedVector, nrm) \<Rightarrow>
          (case JsonZip e (Meta item) of
             Inl err \<Rightarrow> Inl (CompressMetadataFailed err)
           | Inr metaBytes \<Rightarrow>
               (case json_Marshal_map e (Filter item) of
                  Inl err \<Rightarrow> Inl (SerializeFilterFailed err)
                | Inr filterBytes \<Rightarrow>
                    (let vectorObj =
                       \<lparr>t_id = ID item, t_meta = metaBytes, t_filter = filterBytes,
                        t_norm = nrm, t_vector = normalizedVector,
                        t_sparse =
                          (if length (SparseIndices item) > 0 \<and> length (SparseValues item) > 0
                           then Some (SparseIndices item, SparseValues item) else None)\<rparr>
                     in build_batch e idx rest (vectorBatch @ [vectorObj])))))"

definition upsertSequential ::
  "('f, 'd, 'v) env \<Rightarrow> Index \<Rightarrow> ('f, 'v) VectorItem list
     \<Rightarrow> http_request list \<times> error option" where
  "upsertSequential e idx inputArray =
     (case build_batch e idx inputArray [] of
        Inl err \<Rightarrow> ([], Some err)
      | Inr vectorBatch \<Rightarrow>
          (case msgpack_Marshal e vectorBatch of
             Inl err \<Rightarrow> ([], Some (SerializeBatchFailed err))
           | Inr serializedData \<Rightarrow>
               (case executeRequestWithContext e idx ''POST'' ''index/%s/vector/insert''
                       (Some serializedData) ''application/msgpack'' of
                  (sent, Inl err) \<Rightarrow> (sent, Some err)
                | (sent, Inr resp) \<Rightarrow> (sent, checkError e resp))))"

text \<open>
  The plan of \<open>upsertConcurrent\<close>: the number of workers for \<open>n\<close> items on \<open>cpu\<close>
  processors, and the size of a sub-batch for \<open>numWorkers\<close> workers.
\<close>

definition plan_workers :: "nat \<Rightarrow> nat \<Rightarrow> nat" where
  "plan_workers cpu n = (if n < cpu * 2 then (n + 1) div 2 else cpu)"

definition plan_batch_size :: "nat \<Rightarrow> nat \<Rightarrow> nat" where
  "plan_batch_size n numWorkers =
     (let batchSize = (n + numWorkers - 1) div numWorkers in
      if batchSize > 100 then 100 else batchSize)"

text \<open>
  The dispatching loop \<open>for i := 0; i < len(inputArray); i += batchSize\<close>: the slices
  \<open>inputArray[i:end]\<close> it sends, in order. It is entered with \<open>batchSize > 0\<close> only.
\<close>

function batches_from :: "nat \<Rightarrow> nat \<Rightarrow> 'a list \<Rightarrow> 'a list list" where
  "batches_from batchSize i inputArray =
     (if i < length inputArray \<and> 0 < batchSize
      then (let end = (if i + batchSize > length inputArray then length inputArray
                       else i + batchSize)
            in take (end - i) (drop i inputArray) # batches_from batchSize (i + batchSize) inputArray)
      else [])"
  by pat_completeness auto
termination
  by (relation "measure (\<lambda>(b, i, xs). length xs - i)") auto

text \<open>The outcomes in the order in which they reach the result channel.\<close>

definition arrivals :: "schedule \<Rightarrow> 'a list \<Rightarrow> 'a list" where
  "arrivals sched outcomes =
     map (\<lambda>p. outcomes ! p) (filter (\<lambda>p. p < length outcomes) (completion sched))"

definition dispatched :: "schedule \<Rightarrow> 'a list \<Rightarrow> 'a list" where
  "dispatched sched work =
     (case dispatch_stop sched of None \<Rightarrow> work | Some k \<Rightarrow> take k work)"

definition upsertConcurrent ::
  "('f, 'd, 'v) env \<Rightarrow> schedule \<Rightarrow> Index \<Rightarrow> ('f, 'v) VectorItem list
     \<Rightarrow> http_request list \<times> error option" where
  "upsertConcurrent e sched idx inputArray =
     (let numWorkers = plan_workers (NumCPU e) (length inputArray) in
      if numWorkers = 0 then ([], Some RuntimePanic)
      else
        let batchSize = plan_batch_size (length inputArray) numWorkers;
            work = dispatched sched (batches_from batchSize 0 inputArray);
            outcomes = map (upsertSequential e idx) (filter (\<lambda>batch. length batch > 0) work);
            arrived = arrivals sched outcomes;
            errors = List.map_filter snd arrived
        in (concat (map fst arrived),
            if length errors > 0 then Some (UpsertFailed (errors ! 0)) else None))"

definition UpsertWithContext ::
  "('f, 'd, 'v) env \<Rightarrow> schedule \<Rightarrow> Index \<Rightarrow> ('f, 'v) VectorItem list
     \<Rightarrow> http_request list \<times> error option" where
  "UpsertWithContext e sched idx inputArray =
     (if int (length inputArray) > MaxVectorsPerBatch
      then ([], Some (BatchTooLarge MaxVectorsPerBatch))
      else if length inputArray = 0 then ([], None)
      else case validate_items 0 inputArray of
             Some err \<Rightarrow> ([], Some err)
           | None \<Rightarrow>
               if length inputArray \<le> 10 then upsertSequential e idx inputArray
               else upsertConcurrent e sched idx inputArray)"

section \<open>index.go: decoding a query response\<close>

definition toFloat32 :: "('f, 'd, 'v) env \<Rightarrow> ('f, 'd) wire \<Rightarrow> 'f" where
  "toFloat32 e val =
     (case val of
        WNil \<Rightarrow> f_zero (fops e)
      | WFloat32 v \<Rightarrow> v
      | WFloat64 v \<Rightarrow> f32_of_f64 e v
      | WInt v \<Rightarrow> f32_of_int e (sint v)
      | WInt8 v \<Rightarrow> f32_of_int e (sint v)
      | WInt16 v \<Rightarrow> f32_of_int e (sint v)
      | WInt32 v \<Rightarrow> f32_of_int e (sint v)
      | WInt64 v \<Rightarrow> f32_of_int e (sint v)
      | WUint8 v \<Rightarrow> f32_of_int e (uint v)
      | WUint16 v \<Rightarrow> f32_of_int e (uint v)
      | WUint32 v \<Rightarrow> f32_of_int e (uint v)
      | WUint64 v \<Rightarrow> f32_of_int e (uint v)
      | _ \<Rightarrow> f_zero (fops e))"

definition safeStringConvert :: "('f, 'd, 'v) env \<Rightarrow> ('f, 'd) wire \<Rightarrow> string" where
  "safeStringConvert e val =
     (case val of
        WNil \<Rightarrow> []
      | WString v \<Rightarrow> v
      | WBytes v \<Rightarrow> v
      | _ \<Rightarrow> Sprint_v e val)"

text \<open>The bytes of the metadata element: \<open>metaDataBytes\<close> (nil is the empty sequence).\<close>

definition metaDataBytes :: "('f, 'd) wire \<Rightarrow> bytes" where
  "metaDataBytes val = (case val of WString v \<Rightarrow> v | WBytes v \<Rightarrow> v | _ \<Rightarrow> [])"

text \<open>
  The type assertion \<open>result[5].([]interface{})\<close> followed by the conversion loop; the
  assertion panics on anything but an array.
\<close>

definition vector_of_wire :: "('f, 'd, 'v) env \<Rightarrow> ('f, 'd) wire \<Rightarrow> error + 'f list" where
  "vector_of_wire e val =
     (case val of
        WArray vectorInterface \<Rightarrow> Inr (map (toFloat32 e) vectorInterface)
      | _ \<Rightarrow> Inl RuntimePanic)"

text \<open>The metadata of a result: absent when the bytes are empty or do not decode.\<close>

definition parse_meta :: "('f, 'd, 'v) env \<Rightarrow> bytes \<Rightarrow> 'v gomap" where
  "parse_meta e bs =
     (if length bs > 0
      then (case JsonUnzip e bs of Inr meta \<Rightarrow> meta | Inl err \<Rightarrow> None)
      else None)"

text \<open>
  The body of the sequential loop of \<open>QueryWithContext\<close> for a tuple of at least 5
  elements.
\<close>

definition query_item ::
  "('f, 'd, 'v) env \<Rightarrow> bool \<Rightarrow> ('f, 'd) wire list \<Rightarrow> error + ('f, 'v) QueryResult" where
  "query_item e includeVectors result =
     (let similarity = toFloat32 e (result ! 0);
          vectorID = safeStringConvert e (result ! 1);
          metaBytes = metaDataBytes (result ! 2);
          filterStr = safeStringConvert e (result ! 3);
          normValue = toFloat32 e (result ! 4)
      in case (if length result > 5 \<and> result ! 5 \<noteq> WNil
               then vector_of_wire e (result ! 5) else Inr [])
         of Inl err \<Rightarrow> Inl err
          | Inr vectorData \<Rightarrow>
              Inr \<lparr>res_ID = vectorID,
                   res_Similarity = similarity,
                   res_Distance = f_sub (fops e) (f_one (fops e)) similarity,
                   res_Meta = parse_meta e metaBytes,
                   res_Filter =
                     (if filterStr \<noteq> []
                      then (case json_Unmarshal_map e filterStr of
                              Inr filterMap \<Rightarrow> filterMap | Inl err \<Rightarrow> None)
                      else None),
                   res_Norm = normValue,
                   res_Vector =
                     (if includeVectors \<and> length vectorData > 0 then Some vectorData
                      else None)\<rparr>)"

text \<open>The sequential loop: tuples of fewer than 5 elements are passed over.\<close>

fun query_loop ::
  "('f, 'd, 'v) env \<Rightarrow> bool \<Rightarrow> ('f, 'd) wire list list \<Rightarrow> ('f, 'v) QueryResult list
     \<Rightarrow> error + ('f, 'v) QueryResult list" where
  "query_loop e includeVectors [] processedResults = Inr processedResults"
| "query_loop e includeVectors (result # rest) processedResults =
     (if length result < 5 then query_loop e includeVectors rest processedResults
      else case query_item e includeVectors result of
             Inl err \<Rightarrow> Inl err
           | Inr processed \<Rightarrow>
               query_loop e includeVectors rest (processedResults @ [processed]))"

definition processResult ::
  "('f, 'd, 'v) env \<Rightarrow> ('f, 'd) wire list \<Rightarrow> bool \<Rightarrow> error + ('f, 'v) QueryResult" where
  "processResult e result includeVectors =
     (if length result < 5 then Inl (InvalidResultFormat (length result))
      else
        let similarity = toFloat32 e (result ! 0);
            vectorID = safeStringConvert e (result ! 1);
            metaBytes = metaDataBytes (result ! 2);
            filterStr = safeStringConvert e (result ! 3);
            normValue = toFloat32 e (result ! 4);
            processed =
              \<lparr>res_ID = vectorID,
               res_Similarity = similarity,
               res_Distance = f_sub (fops e) (f_one (fops e)) similarity,
               res_Meta = parse_meta e metaBytes,
               res_Filter =
                 (if filterStr \<noteq> []
                  then (case json_Decode_map e filterStr of
                          Inr filterMap \<Rightarrow> filterMap | Inl err \<Rightarrow> None)
                  else None),
               res_Norm = normValue,
               res_Vector = None\<rparr>
        in if includeVectors \<and> length result > 5 \<and> result ! 5 \<noteq> WNil
           then (case vector_of_wire e (result ! 5) of
                   Inl err \<Rightarrow> Inl err
                 | Inr vectorData \<Rightarrow> Inr (processed\<lparr>res_Vector := Some vectorData\<rparr>))
           else Inr processed)"

text \<open>The zero value of \<open>QueryResult\<close>, which \<open>make\<close> fills the output with.\<close>

definition zero_QueryResult :: "('f, 'd, 'v) env \<Rightarrow> ('f, 'v) QueryResult" where
  "zero_QueryResult e =
     \<lparr>res_ID = [], res_Similarity = f_zero (fops e), res_Distance = f_zero (fops e),
      res_Meta = None, res_Filter = None, res_Norm = f_zero (fops e), res_Vector = None\<rparr>"

text \<open>
  The collecting loop of \<open>processResultsConcurrent\<close> over the outcomes in the order of
  their arrival: the first error returns, a result is stored at its index.
\<close>

fun collect ::
  "('f, 'v) QueryResult list \<Rightarrow> (nat \<times> (error + ('f, 'v) QueryResult)) list
     \<Rightarrow> error + ('f, 'v) QueryResult list" where
  "collect processedResults [] = Inr processedResults"
| "collect processedResults ((index, Inl err) # rest) = Inl err"
| "collect processedResults ((index, Inr data) # rest) =
     collect (processedResults[index := data]) rest"

text \<open>
  \<open>processResultsConcurrent\<close>. With no worker nothing is taken from the work channel
  and the result channel closes empty.
\<close>

definition processResultsConcurrent ::
  "('f, 'd, 'v) env \<Rightarrow> schedule \<Rightarrow> ('f, 'd) wire list list \<Rightarrow> bool
     \<Rightarrow> error + ('f, 'v) QueryResult list" where
  "processResultsConcurrent e sched results includeVectors =
     (let numWorkers = plan_workers (NumCPU e) (length results);
          work = (if numWorkers = 0 then []
                  else dispatched sched (zip [0..<length results] results));
          outcomes = map (\<lambda>(index, result). (index, processResult e result includeVectors)) work
      in collect (replicate (length results) (zero_QueryResult e)) (arrivals sched outcomes))"

section \<open>index.go: Query\<close>

text \<open>
  The decoding at the end of \<open>QueryWithContext\<close>: more than 50 tuples go to
  \<open>processResultsConcurrent\<close>, fewer through the sequential loop, after which the
  vectors are cleared when they were not asked for.
\<close>

definition decode_results ::
  "('f, 'd, 'v) env \<Rightarrow> schedule \<Rightarrow> ('f, 'd) wire list list \<Rightarrow> bool
     \<Rightarrow> error + ('f, 'v) QueryResult list" where
  "decode_results e sched results includeVectors =
     (if length results > 50 then processResultsConcurrent e sched results includeVectors
      else case query_loop e includeVectors results [] of
             Inl err \<Rightarrow> Inl err
           | Inr processedResults \<Rightarrow>
               Inr (if \<not> includeVectors
                    then map (\<lambda>r. r\<lparr>res_Vector := None\<rparr>) processedResults
                    else processedResults))"

text \<open>The exchange with the service, from the request data on.\<close>

definition query_round_trip ::
  "('f, 'd, 'v) env \<Rightarrow> schedule \<Rightarrow> Index \<Rightarrow> 'f QueryRequest \<Rightarrow> bool
     \<Rightarrow> http_request list \<times> (error + ('f, 'v) QueryResult list)" where
  "query_round_trip e sched i requestData includeVectors =
     (case json_Marshal_request e requestData of
        Inl err \<Rightarrow> ([], Inl (MarshalRequestFailed err))
      | Inr jsonData \<Rightarrow>
          (case executeRequestWithContext e i ''POST'' ''index/%s/search''
                  (Some jsonData) ''application/json'' of
             (sent, Inl err) \<Rightarrow> (sent, Inl err)
           | (sent, Inr resp) \<Rightarrow>
               (case checkError e resp of
                  Some err \<Rightarrow> (sent, Inl err)
                | None \<Rightarrow>
                    (case Body resp of
                       Inl err \<Rightarrow> (sent, Inl (ReadBodyFailed err))
                     | Inr buf \<Rightarrow>
                         (case msgpack_Unmarshal e buf of
                            Inl err \<Rightarrow> (sent, Inl (UnmarshalResponseFailed err))
                          | Inr results \<Rightarrow>
                              (sent, decode_results e sched results includeVectors))))))"

definition QueryWithContext ::
  "('f, 'd, 'v) env \<Rightarrow> schedule \<Rightarrow> Index \<Rightarrow> 'f list \<Rightarrow> int list \<Rightarrow> 'f list \<Rightarrow> int
     \<Rightarrow> 'v gomap \<Rightarrow> int \<Rightarrow> bool
     \<Rightarrow> http_request list \<times> (error + ('f, 'v) QueryResult list)" where
  "QueryWithContext e sched i vector sparseIndices sparseValues k filt ef includeVectors =
     (if k \<le> 0 \<or> k > MaxTopKAllowed then ([], Inl (TopKRange MaxTopKAllowed))
      else if ef < 0 \<or> ef > MaxEfSearchAllowed then ([], Inl (EfRange MaxEfSearchAllowed))
      else
        let hasDense = (length vector > 0);
            hasSparseIndices = (length sparseIndices > 0);
            hasSparseValues = (length sparseValues > 0)
        in
        if \<not> hasDense \<and> \<not> hasSparseIndices then ([], Inl NoQueryInput)
        else if hasSparseIndices \<noteq> hasSparseValues then ([], Inl QuerySparseTogether)
        else if hasSparseIndices \<and> length sparseIndices \<noteq> length sparseValues
          then ([], Inl QuerySparseSameLength)
        else
          case normalizeVector (fops e) i vector of
            Inl err \<Rightarrow> ([], Inl err)
          | Inr (normalizedVector, nrm) \<Rightarrow>
              (case (case filt of
                       None \<Rightarrow> Inr []
                     | Some m \<Rightarrow> json_Marshal_filters e m)
               of Inl err \<Rightarrow> ([], Inl (SerializeFilterFailed err))
                | Inr filterBytes \<Rightarrow>
                    query_round_trip e sched i
                      \<lparr>req_Vector = normalizedVector, req_SparseIndices = sparseIndices,
                       req_SparseValues = sparseValues, req_TopK = k, req_Ef = ef,
                       req_IncludeVectors = includeVectors, req_Filter = filterBytes\<rparr>
                      includeVectors))"

section \<open>The specification's notions\<close>

text \<open>
  The Euclidean norm in the specification's words: the square root of the sum of the
  squared components, with the float32 operations.
\<close>

definition spec_norm :: "'f float_ops \<Rightarrow> 'f list \<Rightarrow> 'f" where
  "spec_norm ops v =
     f_sqrt ops (foldl (f_add ops) (f_zero ops) (map (\<lambda>x. f_mul ops x x) v))"

text \<open>The quotient \<open>a / b\<close> rounded up, as the specification's plan has it.\<close>

definition spec_ceil_div :: "nat \<Rightarrow> nat \<Rightarrow> nat" where
  "spec_ceil_div a b = nat \<lceil>real a / real b\<rceil>"

section \<open>An environment for examples\<close>

text \<open>
  A small environment on which the definitions evaluate: exact arithmetic on the reals
  for the float32 operations, and stand-ins for the libraries. The values of a mapping
  are strings, numbers, booleans, nil, and a not-a-number float, which
  \<open>json.Marshal\<close> refuses.
\<close>

datatype govalue = GNil | GBool bool | GNum real | GString string | GNaN

definition exact_ops :: "real float_ops" where
  "exact_ops =
     \<lparr>f_zero = 0, f_one = 1, f_add = (+), f_sub = (-), f_mul = (*), f_div = (/),
      f_eq = (=), f_sqrt = sqrt\<rparr>"

fun subst_s :: "string \<Rightarrow> string \<Rightarrow> string" where
  "subst_s [] a = []"
| "subst_s [c] a = [c]"
| "subst_s (c # d # rest) a =
     (if c = CHR ''%'' \<and> d = CHR ''s'' then a @ subst_s rest a
      else c # subst_s (d # rest) a)"

text \<open>
  The stand-in for \<open>json.Marshal\<close> on a mapping: an error for a mapping whose
  \<open>score\<close> is not a number, the title of the mapping otherwise.
\<close>

definition ex_marshal :: "govalue gomap \<Rightarrow> lib_error + bytes" where
  "ex_marshal data =
     (case data of
        None \<Rightarrow> Inr ''null''
      | Some m \<Rightarrow>
          (case m ''score'' of
             Some GNaN \<Rightarrow> Inl ''json: unsupported value: NaN''
           | _ \<Rightarrow>
               (case m ''title'' of
                  Some (GString s) \<Rightarrow> Inr (''{title:'' @ s @ ''}'')
                | _ \<Rightarrow> Inr ''{}'')))"

definition ex_unmarshal :: "bytes \<Rightarrow> lib_error + govalue gomap" where
  "ex_unmarshal b =
     (if b = ''null'' then Inr None
      else if b = ''{}'' then Inr (Some Map.empty)
      else if take 7 b = ''{title:'' \<and> 8 \<le> length b \<and> last b = CHR ''}''
        then Inr (Some [''title'' \<mapsto> GString (butlast (drop 7 b))])
      else Inl ''invalid character'')"

definition ex_compress :: "bytes \<Rightarrow> lib_error + bytes" where
  "ex_compress b = Inr (CHR ''z'' # b)"

definition ex_decompress :: "bytes \<Rightarrow> lib_error + bytes" where
  "ex_decompress z =
     (case z of
        [] \<Rightarrow> Inl ''unexpected EOF''
      | c # b \<Rightarrow> if c = CHR ''z'' then Inr b else Inl ''zlib: invalid header'')"

definition ex_response :: "(real, real) wire list list" where
  "ex_response =
     [[WFloat64 (1 / 2), WString ''a'', WNil, WNil, WFloat32 1],
      [WString ''short''],
      [WInt8 1, WBytes ''b'', WNil, WNil, WUint8 2, WArray [WInt16 3, WNil]]]"

definition ex_env :: "(real, real, govalue) env" where
  "ex_env =
     \<lparr>fops = exact_ops,
      NumCPU = 4,
      f32_of_f64 = (\<lambda>x. x),
      f32_of_int = real_of_int,
      Sprint_v = (\<lambda>w. ''<value>''),
      Sprintf_s = subst_s,
      v_string = (\<lambda>v. case v of GString s \<Rightarrow> Some s | _ \<Rightarrow> None),
      json_Marshal_map = ex_marshal,
      json_Marshal_filters = (\<lambda>m. Inr ''[{}]''),
      json_Marshal_request = (\<lambda>r. Inr ''{request}''),
      json_Unmarshal_map = ex_unmarshal,
      json_Decode_map = ex_unmarshal,
      zlib_compress = ex_compress,
      zlib_decompress = ex_decompress,
      msgpack_Marshal = (\<lambda>ts. Inr (concat (map t_id ts))),
      msgpack_Unmarshal = (\<lambda>b. Inr ex_response),
      http_NewRequest = (\<lambda>m u. None),
      http_Do = (\<lambda>req. Inr \<lparr>StatusCode = 200, Body = Inr ''body''\<rparr>)\<rparr>"

definition ex_sched :: schedule where
  "ex_sched = \<lparr>dispatch_stop = None, completion = [1, 0]\<rparr>"

definition ex_index :: Index where
  "ex_index =
     \<lparr>Name = ''docs'', Token = ''token'', URL = ''http://127.0.0.1:8080/api/v1'',
      Version = 1, idx_Checksum = - 1, LibToken = '''', Count = 0,
      SpaceType = ''cosine'', Dimension = 2, SparseDim = 0, Precision = ''int8d'',
      idx_M = 16\<rparr>"

definition ex_item :: "string \<Rightarrow> (real, govalue) VectorItem" where
  "ex_item name =
     \<lparr>ID = name, Vector = [3, 4], SparseIndices = [], SparseValues = [],
      Meta = None, Filter = None\<rparr>"

text \<open>The two errors of the range checks on k and ef.\<close>

definition range_error :: "error \<Rightarrow> bool" where
  "range_error err = (case err of TopKRange n \<Rightarrow> True | EfRange n \<Rightarrow> True | _ \<Rightarrow> False)"

section \<open>Properties\<close>

subsection \<open>normalizeVector\<close>

lemma sum_loop_foldl:
  "sum_loop ops acc v = foldl (f_add ops) acc (map (\<lambda>x. f_mul ops x x) v)"
  by (induction v arbitrary: acc) simp_all

lemma div_loop_map:
  "i \<le> length xs \<Longrightarrow>
     div_loop ops n i xs = take i xs @ map (\<lambda>x. f_div ops x n) (drop i xs)"
proof (induction ops n i xs rule: div_loop.induct)
  case (1 ops nrm i xs)
  show ?case
  proof (cases "i < length xs")
    case True
    let ?ys = "xs[i := f_div ops (xs ! i) nrm]"
    have "div_loop ops nrm i xs = div_loop ops nrm (i + 1) ?ys"
      using True by simp
    also have "\<dots> = take (i + 1) ?ys @ map (\<lambda>x. f_div ops x nrm) (drop (i + 1) ?ys)"
      using True by (intro "1.IH") simp_all
    also have "take (i + 1) ?ys = take i xs @ [f_div ops (xs ! i) nrm]"
      using True by (simp add: take_Suc_conv_app_nth)
    also have "drop (i + 1) ?ys = drop (i + 1) xs"
      by simp
    finally show ?thesis
      using True by (simp add: Cons_nth_drop_Suc [symmetric])
  next
    case False
    with "1.prems" have "i = length xs" by simp
    then show ?thesis by simp
  qed
qed

text \<open>
  C1. For every vector and index: a vector whose length is not the index's Dimension
  fails with the dimension-mismatch error; otherwise, in a space other than cosine the
  vector comes back unchanged with norm 1.0; in the cosine space, when the Euclidean norm
  (the square root of the sum of the squared components) compares equal to 0 the vector
  comes back unchanged with norm 1.0, and otherwise the result is the vector with every
  component divided by that norm, together with the norm.
\<close>

theorem normalizeVector_spec:
  "normalizeVector ops idx v =
     (if int (length v) \<noteq> Dimension idx
        then Inl (DimensionMismatch (Dimension idx) (int (length v)))
      else if SpaceType idx \<noteq> ''cosine'' then Inr (v, f_one ops)
      else if f_eq ops (spec_norm ops v) (f_zero ops) then Inr (v, f_one ops)
      else Inr (map (\<lambda>x. f_div ops x (spec_norm ops v)) v, spec_norm ops v))"
  by (simp add: normalizeVector_def spec_norm_def sum_loop_foldl div_loop_map Let_def
      del: div_loop.simps)

lemma sqrt_25: "sqrt 25 = 5"
  by (rule real_sqrt_unique) simp_all

lemma ex_spec_norm: "spec_norm exact_ops [3, 4] = 5"
  by (simp add: spec_norm_def exact_ops_def sqrt_25)

theorem normalizeVector_spec_witness:
  "normalizeVector exact_ops ex_index [3, 4] = Inr ([3 / 5, 4 / 5], 5)
   \<and> normalizeVector exact_ops ex_index [0, 0] = Inr ([0, 0], 1)
   \<and> normalizeVector exact_ops (ex_index\<lparr>SpaceType := ''l2''\<rparr>) [3, 4] = Inr ([3, 4], 1)
   \<and> normalizeVector exact_ops ex_index [3, 4, 5] = Inl (DimensionMismatch 2 3)"
  using normalizeVector_spec [of exact_ops ex_index "[3, 4]"]
    normalizeVector_spec [of exact_ops ex_index "[0, 0]"]
    normalizeVector_spec [of exact_ops "ex_index\<lparr>SpaceType := ''l2''\<rparr>" "[3, 4]"]
    normalizeVector_spec [of exact_ops ex_index "[3, 4, 5]"]
  by (simp add: ex_spec_norm ex_index_def) (simp add: spec_norm_def exact_ops_def)

subsection \<open>Query: a sparse-only query\<close>

lemma Query_k_out:
  assumes "k \<le> 0 \<or> 512 < k"
  shows "QueryWithContext e sched i vector sparseIndices sparseValues k filt ef includeVectors
           = ([], Inl (TopKRange 512))"
  using assms by (simp add: QueryWithContext_def MaxTopKAllowed_def)

lemma Query_ef_out:
  assumes "\<not> (k \<le> 0 \<or> 512 < k)" "ef < 0 \<or> 1024 < ef"
  shows "QueryWithContext e sched i vector sparseIndices sparseValues k filt ef includeVectors
           = ([], Inl (EfRange 1024))"
  using assms by (simp add: QueryWithContext_def MaxTopKAllowed_def MaxEfSearchAllowed_def)

lemma Query_sparse_only_in_range:
  assumes "\<not> (k \<le> 0 \<or> 512 < k)" "\<not> (ef < 0 \<or> 1024 < ef)"
    and "Dimension i \<noteq> 0"
    and "sparseIndices \<noteq> []" and "length sparseIndices = length sparseValues"
  shows "QueryWithContext e sched i [] sparseIndices sparseValues k filt ef includeVectors
           = ([], Inl (DimensionMismatch (Dimension i) 0))"
proof -
  from assms(4,5) have "sparseValues \<noteq> []" by auto
  with assms show ?thesis
    by (simp add: QueryWithContext_def MaxTopKAllowed_def MaxEfSearchAllowed_def
        normalizeVector_def Let_def)
qed

text \<open>
  C5, as stated, fails: the dimension-mismatch error is not what every such query gets.
  On an index of Dimension 2, the query with no dense vector, two sparse entries and
  k = 0 is refused by the check of k, which comes first, with the top_k error.
\<close>

theorem query_sparse_only_counterexample:
  "QueryWithContext ex_env ex_sched ex_index [] [1, 7] [1 / 2, 1 / 4] 0 None 128 False
     = ([], Inl (TopKRange 512))
   \<and> Dimension ex_index = 2"
  by (simp add: QueryWithContext_def MaxTopKAllowed_def ex_index_def)

text \<open>
  C5, amended. On an index whose Dimension is not 0, a query with no dense vector and
  non-empty sparse indices and values of equal length never sends a request, whatever k
  and ef are, and always fails: with the top_k error when k is outside 1..512, else with
  the ef error when ef is outside 0..1024, and otherwise (having passed the check that
  one input is given and the checks of the sparse pair) with the dimension-mismatch
  error (expected Dimension, got 0), because the empty dense vector still goes through
  normalizeVector.
\<close>

theorem query_sparse_only_amended:
  assumes "Dimension i \<noteq> 0"
    and "sparseIndices \<noteq> []" and "length sparseIndices = length sparseValues"
  shows "QueryWithContext e sched i [] sparseIndices sparseValues k filt ef includeVectors
           = ([], Inl (if k \<le> 0 \<or> 512 < k then TopKRange 512
                       else if ef < 0 \<or> 1024 < ef then EfRange 1024
                       else DimensionMismatch (Dimension i) 0))"
proof (cases "k \<le> 0 \<or> 512 < k")
  case True
  then show ?thesis using Query_k_out [OF True] by simp
next
  case k: False
  show ?thesis
  proof (cases "ef < 0 \<or> 1024 < ef")
    case True
    then show ?thesis using k Query_ef_out [OF k True] by simp
  next
    case False
    then show ?thesis using k Query_sparse_only_in_range [OF k False assms] by simp
  qed
qed

theorem query_sparse_only_amended_witness:
  "QueryWithContext ex_env ex_sched ex_index [] [1, 7] [1 / 2, 1 / 4] 10 None 128 False
     = ([], Inl (DimensionMismatch 2 0))
   \<and> QueryWithContext ex_env ex_sched ex_index [] [1, 7] [1 / 2, 1 / 4] 10 None 1025 False
     = ([], Inl (EfRange 1024))"
  using query_sparse_only_amended [of ex_index "[1, 7]" "[1 / 2, 1 / 4 :: real]"
      ex_env ex_sched 10 None 128 False]
    query_sparse_only_amended [of ex_index "[1, 7]" "[1 / 2, 1 / 4 :: real]"
      ex_env ex_sched 10 None 1025 False]
  by (simp add: ex_index_def)

subsection \<open>Query: the range checks on k and ef\<close>

lemma checkError_not_range: "checkError e resp = Some err \<Longrightarrow> \<not> range_error err"
  by (auto simp add: checkError_def range_error_def Let_def split: if_splits sum.splits)

lemma executeRequest_not_range:
  "executeRequestWithContext e idx m p b c = (sent, Inl err) \<Longrightarrow> \<not> range_error err"
  by (auto simp add: executeRequestWithContext_def range_error_def Let_def
      split: option.splits sum.splits)

lemma vector_of_wire_error: "vector_of_wire e w = Inl err \<Longrightarrow> err = RuntimePanic"
  by (auto simp add: vector_of_wire_def split: wire.splits)

lemma query_item_error: "query_item e inc r = Inl err \<Longrightarrow> err = RuntimePanic"
  by (auto simp add: query_item_def Let_def split: sum.splits if_splits
      dest: vector_of_wire_error)

lemma query_loop_error: "query_loop e inc rs acc = Inl err \<Longrightarrow> err = RuntimePanic"
  by (induction rs arbitrary: acc) (auto split: if_splits sum.splits dest: query_item_error)

lemma processResult_error:
  "processResult e r inc = Inl err \<Longrightarrow>
     err = RuntimePanic \<or> (length r < 5 \<and> err = InvalidResultFormat (length r))"
  by (auto simp add: processResult_def Let_def split: sum.splits if_splits
      dest: vector_of_wire_error)

lemma collect_error:
  "collect out arr = Inl err \<Longrightarrow> \<exists>index. (index, Inl err) \<in> set arr"
  by (induction out arr rule: collect.induct) auto

lemma set_arrivals: "set (arrivals sched outcomes) \<subseteq> set outcomes"
  by (auto simp add: arrivals_def)

lemma set_dispatched: "set (dispatched sched work) \<subseteq> set work"
  by (auto simp add: dispatched_def split: option.splits dest: in_set_takeD)

lemma processResultsConcurrent_unfold:
  "processResultsConcurrent e sched results inc =
     collect (replicate (length results) (zero_QueryResult e))
       (arrivals sched
          (map (\<lambda>(index, result). (index, processResult e result inc))
             (if plan_workers (NumCPU e) (length results) = 0 then []
              else dispatched sched (zip [0..<length results] results))))"
  unfolding processResultsConcurrent_def Let_def ..

lemma outcome_of_work:
  assumes "(index, x) \<in> set (map (\<lambda>(index, result). (index, processResult e result inc)) work)"
  shows "\<exists>r. (index, r) \<in> set work \<and> processResult e r inc = x"
proof -
  from assms obtain w where w: "w \<in> set work"
    "(index, x) = (case w of (index, result) \<Rightarrow> (index, processResult e result inc))"
    unfolding set_map by (rule imageE)
  obtain a b where ab: "w = (a, b)" by (cases w)
  with w(2) have "a = index" "processResult e b inc = x" by simp_all
  with w(1) ab show ?thesis by blast
qed

lemma set_work:
  "set (if c then [] else dispatched sched (zip [0..<length results] results))
     \<subseteq> set (zip [0..<length results] results)"
  using set_dispatched [of sched "zip [0..<length results] results"]
  by (cases c) simp_all

lemma collect_outcomes_error:
  assumes c: "collect out (arrivals sched
                (map (\<lambda>(index, result). (index, processResult e result inc)) work)) = Inl err"
    and w: "set work \<subseteq> set (zip ns results)"
  shows "\<exists>r \<in> set results. processResult e r inc = Inl err"
proof -
  from collect_error [OF c] obtain index where
    i: "(index, Inl err) \<in> set (arrivals sched
        (map (\<lambda>(index, result). (index, processResult e result inc)) work))" ..
  have o: "(index, Inl err)
      \<in> set (map (\<lambda>(index, result). (index, processResult e result inc)) work)"
    by (rule subsetD [OF set_arrivals i])
  from outcome_of_work [OF o] obtain r where
    r: "(index, r) \<in> set work" "processResult e r inc = Inl err"
    by (elim exE conjE)
  have "(index, r) \<in> set (zip ns results)"
    by (rule subsetD [OF w r(1)])
  then have "r \<in> set results"
    by (rule set_zip_rightD)
  with r(2) show ?thesis ..
qed

lemma processResultsConcurrent_error:
  assumes "processResultsConcurrent e sched results inc = Inl err"
  shows "\<exists>r \<in> set results. processResult e r inc = Inl err"
  by (rule collect_outcomes_error [OF assms [unfolded processResultsConcurrent_unfold] set_work])

lemma range_error_simps:
  "\<not> range_error RuntimePanic" "\<not> range_error (InvalidResultFormat n)"
  "\<not> range_error (MarshalRequestFailed a)" "\<not> range_error (ReadBodyFailed a)"
  "\<not> range_error (UnmarshalResponseFailed a)" "\<not> range_error (SerializeFilterFailed a)"
  "\<not> range_error (DimensionMismatch x y)" "\<not> range_error NoQueryInput"
  "\<not> range_error QuerySparseTogether" "\<not> range_error QuerySparseSameLength"
  by (simp_all add: range_error_def)

lemma decode_results_not_range:
  assumes "decode_results e sched results inc = Inl err"
  shows "\<not> range_error err"
proof (cases "length results > 50")
  case True
  with assms have "processResultsConcurrent e sched results inc = Inl err"
    by (simp add: decode_results_def)
  then obtain r where "processResult e r inc = Inl err"
    using processResultsConcurrent_error by blast
  then have "err = RuntimePanic \<or> err = InvalidResultFormat (length r)"
    using processResult_error by blast
  then show ?thesis
    using range_error_simps by blast
next
  case False
  with assms have "query_loop e inc results [] = Inl err"
    by (simp add: decode_results_def split: sum.splits)
  then have "err = RuntimePanic"
    by (rule query_loop_error)
  then show ?thesis
    by (simp add: range_error_simps)
qed

lemma query_round_trip_not_range:
  assumes "snd (query_round_trip e sched i rd inc) = Inl err"
  shows "\<not> range_error err"
proof (cases "json_Marshal_request e rd")
  case (Inl a)
  with assms have "err = MarshalRequestFailed a"
    by (simp add: query_round_trip_def)
  then show ?thesis by (simp add: range_error_simps)
next
  case (Inr jsonData)
  obtain sent r where x: "executeRequestWithContext e i ''POST'' ''index/%s/search''
                  (Some jsonData) ''application/json'' = (sent, r)"
    by (cases "executeRequestWithContext e i ''POST'' ''index/%s/search''
                  (Some jsonData) ''application/json''")
  show ?thesis
  proof (cases r)
    case (Inl a)
    with assms Inr x have "err = a"
      by (simp add: query_round_trip_def)
    with x Inl show ?thesis
      using executeRequest_not_range by blast
  next
    case resp: (Inr resp)
    show ?thesis
    proof (cases "checkError e resp")
      case (Some a)
      with assms Inr x resp have "err = a"
        by (simp add: query_round_trip_def)
      with Some show ?thesis
        using checkError_not_range by blast
    next
      case None
      show ?thesis
      proof (cases "Body resp")
        case (Inl a)
        with assms Inr x resp None have "err = ReadBodyFailed a"
          by (simp add: query_round_trip_def)
        then show ?thesis by (simp add: range_error_simps)
      next
        case buf: (Inr buf)
        show ?thesis
        proof (cases "msgpack_Unmarshal e buf")
          case (Inl a)
          with assms Inr x resp None buf have "err = UnmarshalResponseFailed a"
            by (simp add: query_round_trip_def)
          then show ?thesis by (simp add: range_error_simps)
        next
          case res: (Inr results)
          with assms Inr x resp None buf
          have "decode_results e sched results inc = Inl err"
            by (simp add: query_round_trip_def)
          then show ?thesis by (rule decode_results_not_range)
        qed
      qed
    qed
  qed
qed

lemma normalizeVector_error:
  "normalizeVector ops idx v = Inl err \<Longrightarrow> \<exists>a b. err = DimensionMismatch a b"
  by (auto simp add: normalizeVector_def Let_def split: if_splits)

lemma QueryWithContext_valid_error:
  assumes k: "1 \<le> k" "k \<le> 512" and ef: "0 \<le> ef" "ef \<le> 1024"
    and r: "snd (QueryWithContext e sched i vector sparseIndices sparseValues k filt ef
                    includeVectors) = Inl err"
  shows "\<not> range_error err"
proof -
  let ?pre = "if \<not> length vector > 0 \<and> \<not> length sparseIndices > 0 then Some NoQueryInput
        else if (length sparseIndices > 0) \<noteq> (length sparseValues > 0) then Some QuerySparseTogether
        else if length sparseIndices > 0 \<and> length sparseIndices \<noteq> length sparseValues
          then Some QuerySparseSameLength
        else None"
  show ?thesis
  proof (cases ?pre)
    case (Some x)
    then have "snd (QueryWithContext e sched i vector sparseIndices sparseValues k filt ef
                    includeVectors) = Inl x"
      using k ef
      by (auto simp add: QueryWithContext_def MaxTopKAllowed_def MaxEfSearchAllowed_def Let_def
          split: if_splits)
    with r Some show ?thesis
      by (auto simp add: range_error_def split: if_splits)
  next
    case None
    show ?thesis
    proof (cases "normalizeVector (fops e) i vector")
      case (Inl a)
      with None k ef r have "err = a"
        by (simp add: QueryWithContext_def MaxTopKAllowed_def MaxEfSearchAllowed_def Let_def
            split: if_splits)
      with Inl show ?thesis
        using normalizeVector_error by (fastforce simp add: range_error_def)
    next
      case (Inr p)
      obtain nv nrm where p: "p = (nv, nrm)" by (cases p)
      show ?thesis
      proof (cases "case filt of None \<Rightarrow> Inr [] | Some m \<Rightarrow> json_Marshal_filters e m")
        case (Inl a)
        with None k ef r Inr p have "err = SerializeFilterFailed a"
          by (simp add: QueryWithContext_def MaxTopKAllowed_def MaxEfSearchAllowed_def Let_def
              split: if_splits)
        then show ?thesis by (simp add: range_error_def)
      next
        case fb: (Inr filterBytes)
        with None k ef r Inr p
        have "\<exists>rd. snd (query_round_trip e sched i rd includeVectors) = Inl err"
          by (auto simp add: QueryWithContext_def MaxTopKAllowed_def MaxEfSearchAllowed_def
              Let_def split: if_splits)
        then show ?thesis
          using query_round_trip_not_range by blast
      qed
    qed
  qed
qed

text \<open>
  C4. The query checks k against 1..512 and ef against 0..1024 before anything else: a
  query with k outside the range (k = 0, k = 513) fails with the top_k error and one with
  ef outside the range (ef = 1025) fails with the ef error (or the top_k error when k is
  out of range too), in both cases with no request sent; with k and ef inside the ranges
  (k = 512, ef = 0, ef = 1024 among them) whatever error the query may still return is
  neither of these two.
\<close>

theorem query_parameter_validation:
  "(k \<le> 0 \<or> 512 < k \<longrightarrow>
      QueryWithContext e sched i vector sparseIndices sparseValues k filt ef includeVectors
        = ([], Inl (TopKRange 512)))
 \<and> (ef < 0 \<or> 1024 < ef \<longrightarrow>
      QueryWithContext e sched i vector sparseIndices sparseValues k filt ef includeVectors
        = ([], Inl (if k \<le> 0 \<or> 512 < k then TopKRange 512 else EfRange 1024)))
 \<and> (1 \<le> k \<and> k \<le> 512 \<and> 0 \<le> ef \<and> ef \<le> 1024 \<longrightarrow>
      (\<forall>err. snd (QueryWithContext e sched i vector sparseIndices sparseValues k filt ef
                    includeVectors) = Inl err \<longrightarrow> \<not> range_error err))"
proof (intro conjI impI allI)
  assume "k \<le> 0 \<or> 512 < k"
  then show "QueryWithContext e sched i vector sparseIndices sparseValues k filt ef
      includeVectors = ([], Inl (TopKRange 512))"
    by (rule Query_k_out)
next
  assume ef: "ef < 0 \<or> 1024 < ef"
  show "QueryWithContext e sched i vector sparseIndices sparseValues k filt ef includeVectors
        = ([], Inl (if k \<le> 0 \<or> 512 < k then TopKRange 512 else EfRange 1024))"
  proof (cases "k \<le> 0 \<or> 512 < k")
    case True
    then show ?thesis using Query_k_out [OF True] by simp
  next
    case False
    then show ?thesis using Query_ef_out [OF False ef] by simp
  qed
next
  fix err
  assume "1 \<le> k \<and> k \<le> 512 \<and> 0 \<le> ef \<and> ef \<le> 1024"
    and "snd (QueryWithContext e sched i vector sparseIndices sparseValues k filt ef
                    includeVectors) = Inl err"
  then show "\<not> range_error err"
    using QueryWithContext_valid_error by blast
qed

theorem query_parameter_validation_witness:
  "QueryWithContext ex_env ex_sched ex_index [3, 4] [] [] 0 None 128 False
     = ([], Inl (TopKRange 512))
   \<and> QueryWithContext ex_env ex_sched ex_index [3, 4] [] [] 513 None 128 False
     = ([], Inl (TopKRange 512))
   \<and> QueryWithContext ex_env ex_sched ex_index [3, 4] [] [] 10 None 1025 False
     = ([], Inl (EfRange 1024))
   \<and> snd (QueryWithContext ex_env ex_sched ex_index [3, 4] [] [] 512 None 0 False)
       \<noteq> Inl (TopKRange 512)
   \<and> snd (QueryWithContext ex_env ex_sched ex_index [3, 4] [] [] 512 None 1024 False)
       \<noteq> Inl (EfRange 1024)"
proof -
  have r: "range_error (TopKRange 512)" "range_error (EfRange 1024)"
    by (simp_all add: range_error_def)
  have a: "QueryWithContext ex_env ex_sched ex_index [3, 4] [] [] 0 None 128 False
     = ([], Inl (TopKRange 512))"
    using query_parameter_validation
      [of 0 ex_env ex_sched ex_index "[3, 4]" "[]" "[]" None 128 False]
    by simp
  have b: "QueryWithContext ex_env ex_sched ex_index [3, 4] [] [] 513 None 128 False
     = ([], Inl (TopKRange 512))"
    using query_parameter_validation
      [of 513 ex_env ex_sched ex_index "[3, 4]" "[]" "[]" None 128 False]
    by simp
  have c: "QueryWithContext ex_env ex_sched ex_index [3, 4] [] [] 10 None 1025 False
     = ([], Inl (EfRange 1024))"
    using query_parameter_validation
      [of 10 ex_env ex_sched ex_index "[3, 4]" "[]" "[]" None 1025 False]
    by simp
  have "\<forall>err. snd (QueryWithContext ex_env ex_sched ex_index [3, 4] [] [] 512 None 0 False)
          = Inl err \<longrightarrow> \<not> range_error err"
    using query_parameter_validation
      [of 512 ex_env ex_sched ex_index "[3, 4]" "[]" "[]" None 0 False]
    by simp
  with r(1) have d: "snd (QueryWithContext ex_env ex_sched ex_index [3, 4] [] [] 512 None 0 False)
       \<noteq> Inl (TopKRange 512)"
    by blast
  have "\<forall>err. snd (QueryWithContext ex_env ex_sched ex_index [3, 4] [] [] 512 None 1024 False)
          = Inl err \<longrightarrow> \<not> range_error err"
    using query_parameter_validation
      [of 512 ex_env ex_sched ex_index "[3, 4]" "[]" "[]" None 1024 False]
    by simp
  with r(2) have f: "snd (QueryWithContext ex_env ex_sched ex_index [3, 4] [] [] 512 None 1024 False)
       \<noteq> Inl (EfRange 1024)"
    by blast
  from a b c d f show ?thesis by (intro conjI)
qed

subsection \<open>checkError\<close>

text \<open>
  C9, as stated, fails: not every status from 500 to 599 gives the server-busy error.
  A response with status 501 gives the generic API error carrying the status and the
  message; only 500, 502, 503 and 504 are listed in the switch.
\<close>

theorem checkError_counterexample:
  "checkError ex_env \<lparr>StatusCode = 501, Body = Inr ''Not Implemented''\<rparr>
     = Some (APIError 501 ''Not Implemented'')"
  by (simp add: checkError_def StatusOK_def error_message_def ex_env_def ex_unmarshal_def)

text \<open>
  C9, amended. For every response whose status is not 200: when its body cannot be read
  the result is the error of the read; otherwise, with the message taken from the body,
  400 gives the API error with status 400 (bad request), 401 the authentication error,
  402 the subscription error, 403 the forbidden error, 404 the not-found error, 409 the
  conflict error, 500, 502, 503 and 504 the server-busy error with its fixed message,
  and every other status (the other 5xx among them) the generic API error with that
  status.
\<close>

theorem checkError_table:
  "StatusCode resp \<noteq> 200 \<longrightarrow>
     (\<forall>err. Body resp = Inl err \<longrightarrow> checkError e resp = Some (ReadErrorResponseFailed err))
   \<and> (\<forall>body. Body resp = Inr body \<longrightarrow>
        (StatusCode resp = 400 \<longrightarrow>
           checkError e resp = Some (APIError 400 (error_message e body)))
      \<and> (StatusCode resp = 401 \<longrightarrow>
           checkError e resp = Some (AuthenticationError (error_message e body)))
      \<and> (StatusCode resp = 402 \<longrightarrow>
           checkError e resp = Some (SubscriptionError (error_message e body)))
      \<and> (StatusCode resp = 403 \<longrightarrow>
           checkError e resp = Some (ForbiddenError (error_message e body)))
      \<and> (StatusCode resp = 404 \<longrightarrow>
           checkError e resp = Some (NotFoundError (error_message e body)))
      \<and> (StatusCode resp = 409 \<longrightarrow>
           checkError e resp = Some (ConflictError (error_message e body)))
      \<and> (StatusCode resp \<in> {500, 502, 503, 504} \<longrightarrow>
           checkError e resp
             = Some (ServerError ''Server is busy. Please try again in sometime''))
      \<and> (StatusCode resp \<notin> {400, 401, 402, 403, 404, 409, 500, 502, 503, 504} \<longrightarrow>
           checkError e resp = Some (APIError (StatusCode resp) (error_message e body))))"
  by (simp add: checkError_def StatusOK_def Let_def)

theorem checkError_table_witness:
  "checkError ex_env \<lparr>StatusCode = 503, Body = Inr ''busy''\<rparr>
     = Some (ServerError ''Server is busy. Please try again in sometime'')
   \<and> checkError ex_env \<lparr>StatusCode = 599, Body = Inr ''busy''\<rparr>
     = Some (APIError 599 ''busy'')
   \<and> checkError ex_env \<lparr>StatusCode = 401, Body = Inr ''''\<rparr>
     = Some (AuthenticationError ''Unknown error'')
   \<and> checkError ex_env \<lparr>StatusCode = 404, Body = Inl ''unexpected EOF''\<rparr>
     = Some (ReadErrorResponseFailed ''unexpected EOF'')"
  using checkError_table [of "\<lparr>StatusCode = 503, Body = Inr ''busy''\<rparr>" ex_env]
    checkError_table [of "\<lparr>StatusCode = 599, Body = Inr ''busy''\<rparr>" ex_env]
    checkError_table [of "\<lparr>StatusCode = 401, Body = Inr ''''\<rparr>" ex_env]
    checkError_table [of "\<lparr>StatusCode = 404, Body = Inl ''unexpected EOF''\<rparr>" ex_env]
  by (simp add: error_message_def ex_env_def ex_unmarshal_def)

end
